theory Spec2Isabelle
  imports Complex_Main "HOL-Library.Multiset"
begin

section \<open>Data model (src/types.ts)\<close>

text \<open>
  A JavaScript \<open>number\<close> that the program only stores, compares and subtracts is a
  \<open>real\<close>; array positions are \<open>nat\<close> (or \<open>int\<close> where the code uses the
  sentinel \<open>-1\<close>). An optional field \<open>f?: T\<close> is a \<open>T option\<close>, \<open>None\<close> standing
  for \<open>undefined\<close>. A \<open>string\<close> is a list of 8-bit characters, each read as the
  code unit of the same number.
\<close>

record Coordinates =
  lat :: real
  lng :: real

record TripBounds =
  north :: real
  south :: real
  east :: real
  west :: real

record GroundingLink =
  title :: string
  uri :: string

datatype activity_type = Food | Landmark | ActivityT | Relax | Stay

record Activity =
  name :: string
  description :: string
  location :: Coordinates
  time :: string
  type_act :: activity_type
  price :: "string option"
  items :: "string list option"
  groundingLinks :: "GroundingLink list option"
  travelDistance :: "string option"
  travelTime :: "string option"

record DayPlan =
  dayNumber :: int
  theme :: string
  activities :: "Activity list"

datatype currency = USD | INR

record TripPlan =
  id_plan :: string
  destination :: string
  summary :: string
  itinerary :: "DayPlan list"
  centerCoordinates :: Coordinates
  currency :: currency
  totalEstimatedCost :: real
  weatherAdvisory :: string
  createdAt :: "int option"
  stayLocation :: "Activity option"
  postcardUrl :: "string option"

record TripRequest =
  req_destination :: string
  req_days :: int
  req_interests :: string
  req_selectedAreas :: "TripBounds list option"
  req_currency :: currency
  req_startTime :: "string option"
  req_endTime :: "string option"
  req_customInstructions :: "string option"
  req_budgetCap :: "real option"
  req_travelMonth :: "string option"
  req_includeStay :: "bool option"
  req_preSelectedStay :: "Activity option"

text \<open>
  What a handler can end with instead of a value. \<open>TypeError\<close> is the exception
  JavaScript throws on a property read of \<open>undefined\<close> or \<open>null\<close>;
  \<open>ApiKeyMissing\<close> is the \<open>Error\<close> of \<open>getApiKey\<close>; \<open>SyntaxError\<close> is thrown by
  \<open>JSON.parse\<close>; \<open>CollaboratorError\<close> is a rejected request of the generation
  service. \<open>UndefinedElement\<close> is no exception: it marks a run that stores
  \<open>undefined\<close> in an \<open>Activity[]\<close>, which the typed lists of this model cannot hold.
\<close>

datatype failure =
  TypeError | ApiKeyMissing | SyntaxError | CollaboratorError string | UndefinedElement

section \<open>The state of the App component (src/App.tsx, lines 21-33)\<close>

text \<open>
  One field per \<open>useState\<close> hook, and \<open>localStorage\<close> for the value stored under
  the key \<open>tripgenie_saved_plans\<close> (the list that was serialised, \<open>None\<close> when the
  key is absent).
\<close>

record app_state =
  plan :: "TripPlan option"
  loading :: bool
  error :: "string option"
  selectedDayIndex :: nat
  areaSelections :: "TripBounds list"
  loadingMsgIndex :: nat
  savedPlans :: "TripPlan list"
  showHistory :: bool
  isRefreshingLogistics :: bool
  itineraryWidth :: real
  isResizing :: bool
  localStorage :: "TripPlan list option"

section \<open>Saving a plan (src/App.tsx, handleSavePlan, lines 151-156)\<close>

text \<open>\<open>now\<close> is the value of \<open>Date.now()\<close>.\<close>

definition handleSavePlan :: "app_state \<Rightarrow> int \<Rightarrow> TripPlan \<Rightarrow> app_state" where
  "handleSavePlan st now planToSave =
     (let timestampedPlan = planToSave\<lparr>createdAt := Some now\<rparr>;
          newSaved = timestampedPlan # filter (\<lambda>p. id_plan p \<noteq> id_plan planToSave) (savedPlans st)
      in st\<lparr>savedPlans := newSaved, localStorage := Some newSaved\<rparr>)"

section \<open>JavaScript arrays and strings\<close>

text \<open>
  \<open>arr.splice(i, 1)[0]\<close> removes the element at position \<open>i\<close> and yields it; when
  \<open>i\<close> is not a position of the array nothing is removed and the value is
  \<open>undefined\<close> (\<open>None\<close>).
\<close>

definition splice_remove :: "nat \<Rightarrow> 'a list \<Rightarrow> 'a option \<times> 'a list" where
  "splice_remove i xs =
     (if i < length xs then (Some (xs ! i), take i xs @ drop (Suc i) xs) else (None, xs))"

text \<open>\<open>arr.splice(i, 0, x)\<close> inserts \<open>x\<close> before position \<open>i\<close>, at the end when
  \<open>i\<close> is beyond it (\<open>take\<close> and \<open>drop\<close> stop at the end of the list).\<close>

definition splice_insert :: "nat \<Rightarrow> 'a \<Rightarrow> 'a list \<Rightarrow> 'a list" where
  "splice_insert i x xs = take i xs @ x # drop i xs"

text \<open>
  \<open>arr[i] = v\<close> for an integer \<open>i\<close>: a position of the array is overwritten, the
  position just after the end appends, a position further out leaves holes
  (\<open>undefined\<close> elements), and a negative \<open>i\<close> sets a property of the array object
  that is no element of it.
\<close>

definition array_store :: "'a list \<Rightarrow> int \<Rightarrow> 'a \<Rightarrow> failure + 'a list" where
  "array_store xs i v =
     (if i < 0 then Inr xs
      else if i < int (length xs) then Inr (xs[nat i := v])
      else if i = int (length xs) then Inr (xs @ [v])
      else Inl UndefinedElement)"

text \<open>\<open>x || d\<close> for \<open>x\<close> a string or \<open>undefined\<close>: the empty string is falsy.\<close>

definition js_or :: "string option \<Rightarrow> string \<Rightarrow> string" where
  "js_or x d = (case x of None \<Rightarrow> d | Some s \<Rightarrow> if s = [] then d else s)"

text \<open>
  The code units below 256 that \<open>String.prototype.trim\<close> strips: TAB, LF, VT, FF, CR,
  SPACE and NO-BREAK SPACE.
\<close>

definition js_whitespace :: "char \<Rightarrow> bool" where
  "js_whitespace c = ((of_char c :: nat) \<in> {9, 10, 11, 12, 13, 32, 160})"

definition trim :: "string \<Rightarrow> string" where
  "trim s = rev (dropWhile js_whitespace (rev (dropWhile js_whitespace s)))"

section \<open>Drag and drop (src/components/ItineraryList.tsx, onDrop, lines 148-161)\<close>

text \<open>
  \<open>acts\<close> is \<open>currentDay.activities\<close>. The result is \<open>None\<close> when the handler
  returns before calling \<open>onReorderActivities\<close>, and \<open>Some (Inr newActivities)\<close> for
  the call \<open>onReorderActivities(selectedDayIndex, newActivities)\<close>. Both paths reset
  \<open>draggedIndex\<close> and \<open>dropTargetIndex\<close> to \<open>null\<close>.
\<close>

definition onDrop :: "nat option \<Rightarrow> nat \<Rightarrow> Activity list \<Rightarrow> (failure + Activity list) option" where
  "onDrop draggedIndex targetIndex acts =
     (case draggedIndex of
        None \<Rightarrow> None
      | Some d \<Rightarrow>
          if d = targetIndex then None
          else (case splice_remove d acts of
                  (None, _) \<Rightarrow> Some (Inl UndefinedElement)
                | (Some item, newActivities) \<Rightarrow>
                    Some (Inr (splice_insert targetIndex item newActivities))))"

section \<open>The generation service (src/unnamed/part_001, lines 491-708)\<close>

text \<open>
  \<open>process.env.API_KEY\<close> is a parameter. A request to the model either rejects or
  resolves with a response; \<open>JSON.parse\<close> of the response text throws, yields \<open>null\<close>,
  or yields a value.
\<close>

definition getApiKey :: "string option \<Rightarrow> failure + string" where
  "getApiKey key =
     (case key of None \<Rightarrow> Inl ApiKeyMissing
      | Some k \<Rightarrow> if k = [] then Inl ApiKeyMissing else Inr k)"

datatype 'a reply = Rejected string | Resolved 'a

datatype 'a parsed = Unparsable | JsonNull | JsonValue 'a

subsection \<open>recalculateLogistics (lines 652-688)\<close>

text \<open>
  An element of the parsed array, as far as the function reads it: the three fields,
  each a string or absent. An element that is \<open>null\<close> or no object is \<open>None\<close>.
  A parsed value that is no array has no element at any position, like the empty
  array.
\<close>

record logistics_entry =
  lg_time :: "string option"
  lg_travelDistance :: "string option"
  lg_travelTime :: "string option"

text \<open>\<open>updatedLogistics[i]\<close>: \<open>undefined\<close> beyond the end.\<close>

definition entry_at :: "logistics_entry option list \<Rightarrow> nat \<Rightarrow> logistics_entry option" where
  "entry_at updatedLogistics i =
     (if i < length updatedLogistics then updatedLogistics ! i else None)"

text \<open>\<open>e?.f\<close>: \<open>undefined\<close> when \<open>e\<close> is.\<close>

definition opt_field :: "logistics_entry option \<Rightarrow> (logistics_entry \<Rightarrow> string option) \<Rightarrow> string option" where
  "opt_field e f = (case e of None \<Rightarrow> None | Some r \<Rightarrow> f r)"

text \<open>The callback of \<open>activities.map\<close> (lines 682-687).\<close>

definition refreshed :: "logistics_entry option list \<Rightarrow> Activity \<Rightarrow> nat \<Rightarrow> Activity" where
  "refreshed updatedLogistics original i =
     original\<lparr>
       time := js_or (opt_field (entry_at updatedLogistics i) lg_time) (time original),
       travelDistance := Some (js_or (opt_field (entry_at updatedLogistics i) lg_travelDistance) []),
       travelTime := Some (js_or (opt_field (entry_at updatedLogistics i) lg_travelTime) [])\<rparr>"

text \<open>
  \<open>destination\<close>, \<open>stayLocation\<close> and \<open>startTime\<close> only go into the prompt; the
  reply of the model is the parameter \<open>response\<close>. On \<open>null\<close> the callback throws
  at its first run, so an empty activity list still maps to the empty list.
\<close>

definition recalculateLogistics ::
  "Activity list \<Rightarrow> string \<Rightarrow> Activity option \<Rightarrow> string \<Rightarrow> string option
     \<Rightarrow> logistics_entry option list parsed reply \<Rightarrow> failure + Activity list" where
  "recalculateLogistics acts dest stay startTime apiKey response =
     (case getApiKey apiKey of
        Inl e \<Rightarrow> Inl e
      | Inr _ \<Rightarrow>
         (case response of
            Rejected m \<Rightarrow> Inl (CollaboratorError m)
          | Resolved Unparsable \<Rightarrow> Inl SyntaxError
          | Resolved JsonNull \<Rightarrow> if acts = [] then Inr [] else Inl TypeError
          | Resolved (JsonValue updatedLogistics) \<Rightarrow>
              Inr (map (\<lambda>i. refreshed updatedLogistics (acts ! i) i) [0 ..< length acts])))"

subsection \<open>generateTripPlan (lines 551-621)\<close>

text \<open>
  The parsed response text, read as a \<open>TripPlan\<close>: the fields the function
  overwrites, and \<open>itinerary\<close>, may be absent or hold anything.
\<close>

record raw_plan =
  raw_id :: "string option"
  raw_destination :: string
  raw_summary :: string
  raw_itinerary :: "DayPlan list option"
  raw_centerCoordinates :: Coordinates
  raw_currency :: "string option"
  raw_totalEstimatedCost :: real
  raw_weatherAdvisory :: string
  raw_createdAt :: "int option"
  raw_stayLocation :: "Activity option"
  raw_postcardUrl :: "string option"

record grounding_chunk =
  web :: "GroundingLink option"

text \<open>\<open>groundingChunks\<close> is
  \<open>response.candidates?.[0]?.groundingMetadata?.groundingChunks || []\<close>.\<close>

record plan_response =
  response_text :: "raw_plan parsed"
  groundingChunks :: "grounding_chunk list"

definition globalLinks :: "grounding_chunk list \<Rightarrow> GroundingLink list" where
  "globalLinks chunks =
     map (\<lambda>c. \<lparr>title = title (the (web c)), uri = uri (the (web c))\<rparr>)
       (filter (\<lambda>c. web c \<noteq> None) chunks)"

text \<open>\<open>uuid\<close> is the value of \<open>crypto.randomUUID()\<close>.\<close>

definition generateTripPlan ::
  "TripRequest \<Rightarrow> string \<Rightarrow> string option \<Rightarrow> plan_response reply \<Rightarrow> failure + TripPlan" where
  "generateTripPlan request uuid apiKey response =
     (case getApiKey apiKey of
        Inl e \<Rightarrow> Inl e
      | Inr _ \<Rightarrow>
         (case response of
            Rejected m \<Rightarrow> Inl (CollaboratorError m)
          | Resolved r \<Rightarrow>
             (case response_text r of
                Unparsable \<Rightarrow> Inl SyntaxError
              | JsonNull \<Rightarrow> Inl TypeError
              | JsonValue data \<Rightarrow>
                 (case raw_itinerary data of
                    None \<Rightarrow> Inl TypeError
                  | Some days \<Rightarrow>
                      Inr \<lparr>id_plan = uuid,
                        destination = raw_destination data,
                        summary = raw_summary data,
                        itinerary =
                          map (\<lambda>day. day\<lparr>activities :=
                                 map (\<lambda>act. act\<lparr>groundingLinks :=
                                        Some (take 2 (globalLinks (groundingChunks r)))\<rparr>)
                                   (activities day)\<rparr>) days,
                        centerCoordinates = raw_centerCoordinates data,
                        currency = req_currency request,
                        totalEstimatedCost = raw_totalEstimatedCost data,
                        weatherAdvisory = raw_weatherAdvisory data,
                        createdAt = raw_createdAt data,
                        stayLocation =
                          (case req_preSelectedStay request of
                             Some s \<Rightarrow> Some s
                           | None \<Rightarrow> raw_stayLocation data),
                        postcardUrl = raw_postcardUrl data\<rparr>))))"

section \<open>The handlers of App (src/App.tsx)\<close>

text \<open>
  A handler that throws before it updates the state ends in \<open>Inl\<close>, and the state
  stays as it was. \<open>Inl UndefinedElement\<close> stands for a run that leaves \<open>undefined\<close>
  in an activity list, a state the typed model has no value for.
\<close>

subsection \<open>resize (lines 63-72)\<close>

datatype pointer_event = MouseEvent real | TouchEvent "real list"

record container_rect =
  left :: real
  width :: real

text \<open>\<open>e.clientX\<close> of a mouse event, \<open>e.touches[0].clientX\<close> of a touch event.\<close>

definition clientX :: "pointer_event \<Rightarrow> failure + real" where
  "clientX e =
     (case e of
        MouseEvent x \<Rightarrow> Inr x
      | TouchEvent ts \<Rightarrow> (case ts of [] \<Rightarrow> Inl TypeError | x # _ \<Rightarrow> Inr x))"

text \<open>\<open>container\<close> is \<open>containerRef.current\<close> with its bounding rectangle.\<close>

definition resize :: "app_state \<Rightarrow> container_rect option \<Rightarrow> pointer_event \<Rightarrow> failure + app_state" where
  "resize st container e =
     (if \<not> isResizing st then Inr st
      else (case container of
              None \<Rightarrow> Inr st
            | Some rect \<Rightarrow>
               (case clientX e of
                  Inl err \<Rightarrow> Inl err
                | Inr x \<Rightarrow>
                    let containerLeft = left rect;
                        containerWidth = width rect;
                        newWidth = x - containerLeft
                    in if newWidth > 320 \<and> newWidth < containerWidth * 0.75
                       then Inr (st\<lparr>itineraryWidth := newWidth\<rparr>)
                       else Inr st)))"

subsection \<open>handleReorderActivities (lines 105-122)\<close>

text \<open>\<open>p.itinerary[dayIndex].activities = acts\<close>.\<close>

definition setDayActivities :: "TripPlan \<Rightarrow> nat \<Rightarrow> Activity list \<Rightarrow> failure + TripPlan" where
  "setDayActivities p dayIndex acts =
     (if dayIndex < length (itinerary p)
      then Inr (p\<lparr>itinerary := (itinerary p)[dayIndex := (itinerary p ! dayIndex)\<lparr>activities := acts\<rparr>]\<rparr>)
      else Inl TypeError)"

text \<open>The handler up to its \<open>await\<close>: the state that is visible while the logistics
  request is in flight.\<close>

definition handleReorderActivities_sync :: "app_state \<Rightarrow> nat \<Rightarrow> Activity list \<Rightarrow> failure + app_state" where
  "handleReorderActivities_sync st dayIndex newActivities =
     (case plan st of
        None \<Rightarrow> Inr st
      | Some p \<Rightarrow>
         (case setDayActivities p dayIndex newActivities of
            Inl e \<Rightarrow> Inl e
          | Inr updatedPlan \<Rightarrow>
              Inr (st\<lparr>plan := Some updatedPlan, isRefreshingLogistics := True\<rparr>)))"

text \<open>The whole handler, with no other event between its two halves.\<close>

definition handleReorderActivities ::
  "app_state \<Rightarrow> nat \<Rightarrow> Activity list \<Rightarrow> string option
     \<Rightarrow> logistics_entry option list parsed reply \<Rightarrow> failure + app_state" where
  "handleReorderActivities st dayIndex newActivities apiKey response =
     (case plan st of
        None \<Rightarrow> Inr st
      | Some p \<Rightarrow>
         (case setDayActivities p dayIndex newActivities of
            Inl e \<Rightarrow> Inl e
          | Inr updatedPlan \<Rightarrow>
             (let st1 = st\<lparr>plan := Some updatedPlan, isRefreshingLogistics := True\<rparr>
              in case recalculateLogistics newActivities (destination p) (stayLocation p)
                        ''09:00 AM'' apiKey response of
                   Inl e \<Rightarrow> Inr (st1\<lparr>isRefreshingLogistics := False\<rparr>)
                 | Inr syncedActivities \<Rightarrow>
                    (case setDayActivities updatedPlan dayIndex syncedActivities of
                       Inl e \<Rightarrow> Inr (st1\<lparr>isRefreshingLogistics := False\<rparr>)
                     | Inr finalPlan \<Rightarrow>
                         Inr (st1\<lparr>plan := Some finalPlan, isRefreshingLogistics := False\<rparr>)))))"

subsection \<open>handleEditActivity (lines 124-133)\<close>


subsection \<open>handleReplaceActivity (lines 135-149)\<close>

text \<open>The arguments of one call of \<open>generateReplacementActivity\<close>.\<close>

record replacement_call =
  rc_currentActivity :: Activity
  rc_destination :: string
  rc_theme :: string
  rc_currency :: currency
  rc_excludedPlaces :: "string list"

definition excludedPlaces :: "TripPlan \<Rightarrow> string list" where
  "excludedPlaces p = concat (map (\<lambda>day. map name (activities day)) (itinerary p))"

text \<open>
  The result is the state afterwards, the calls made to the collaborator, and what the
  promise settles with: \<open>Inl\<close> an error thrown to the caller, \<open>Inr\<close> the value
  returned (\<open>None\<close> for \<open>undefined\<close>). The collaborator is the parameter
  \<open>generateReplacementActivity\<close>.
\<close>

definition handleReplaceActivity ::
  "app_state \<Rightarrow> nat \<Rightarrow> int \<Rightarrow> Activity \<Rightarrow> (replacement_call \<Rightarrow> failure + Activity)
     \<Rightarrow> app_state \<times> replacement_call list \<times> (failure + Activity option)" where
  "handleReplaceActivity st dayIndex activityIndex currentActivity generateReplacementActivity =
     (case plan st of
        None \<Rightarrow> (st, [], Inr None)
      | Some p \<Rightarrow>
          if dayIndex < length (itinerary p) then
            (let day = itinerary p ! dayIndex;
                 call = \<lparr>rc_currentActivity = currentActivity, rc_destination = destination p,
                   rc_theme = theme day, rc_currency = currency p,
                   rc_excludedPlaces = excludedPlaces p\<rparr>
             in case generateReplacementActivity call of
                  Inl err \<Rightarrow> (st, [call], Inl err)
                | Inr newActivity \<Rightarrow>
                   (case array_store (activities day) activityIndex newActivity of
                      Inl e \<Rightarrow> (st, [call], Inl e)
                    | Inr acts \<Rightarrow>
                       (case setDayActivities p dayIndex acts of
                          Inl e \<Rightarrow> (st, [call], Inl e)
                        | Inr newPlan \<Rightarrow>
                            (st\<lparr>plan := Some newPlan\<rparr>, [call], Inr (Some newActivity)))))
          else (st, [], Inl TypeError))"

section \<open>The planning form (src/unnamed/part_001, TripInput, lines 17-88)\<close>

text \<open>The \<open>useState\<close> hooks of the form that \<open>handleSubmit\<close> reads.\<close>

record trip_input =
  in_destination :: string
  in_days :: int
  in_interests :: string
  in_currency :: currency
  in_includeStay :: bool
  in_preSelectedStay :: "Activity option"
  in_startTime :: string
  in_endTime :: string
  in_customInstructions :: string
  in_budgetCap :: "real option"
  in_travelMonth :: string

text \<open>
  \<open>handleSubmit\<close> (lines 71-88). The result is the form state afterwards and the
  argument of the call of \<open>onPlanTrip\<close>, if it is called.
\<close>

definition handleSubmit :: "trip_input \<Rightarrow> TripBounds list \<Rightarrow> trip_input \<times> TripRequest option" where
  "handleSubmit f selectedAreas =
     (if trim (in_destination f) = [] \<and> length selectedAreas = 0 then (f, None)
      else (f, Some \<lparr>req_destination = in_destination f,
              req_days = in_days f,
              req_interests = in_interests f,
              req_selectedAreas = (if length selectedAreas > 0 then Some selectedAreas else None),
              req_currency = in_currency f,
              req_startTime = Some (in_startTime f),
              req_endTime = Some (in_endTime f),
              req_customInstructions = Some (in_customInstructions f),
              req_budgetCap = in_budgetCap f,
              req_travelMonth = Some (in_travelMonth f),
              req_includeStay = Some (in_includeStay f),
              req_preSelectedStay = in_preSelectedStay f\<rparr>))"

section \<open>Drawing a region (src/unnamed/part_001, AreaDrawer and HomeMap, lines 229-343)\<close>

text \<open>
  A point of the map (Leaflet's \<open>LatLng\<close>) is a \<open>Coordinates\<close>. \<open>L.latLngBounds(a, b)\<close>
  is the smallest rectangle that holds both points.
\<close>

record drawer_state =
  startPoint :: "Coordinates option"
  currentPoint :: "Coordinates option"

definition latLngBounds :: "Coordinates \<Rightarrow> Coordinates \<Rightarrow> TripBounds" where
  "latLngBounds a b =
     \<lparr>north = max (lat a) (lat b), south = min (lat a) (lat b),
      east = max (lng a) (lng b), west = min (lng a) (lng b)\<rparr>"

definition handleDrawComplete :: "TripBounds list \<Rightarrow> TripBounds \<Rightarrow> TripBounds list" where
  "handleDrawComplete selectedAreas newBounds = selectedAreas @ [newBounds]"

definition handleUndo :: "TripBounds list \<Rightarrow> TripBounds list" where
  "handleUndo selectedAreas =
     (if length selectedAreas > 0 then butlast selectedAreas else selectedAreas)"

definition mousedown :: "bool \<Rightarrow> Coordinates \<Rightarrow> drawer_state \<Rightarrow> drawer_state" where
  "mousedown isDrawingMode latlng d =
     (if \<not> isDrawingMode then d else \<lparr>startPoint = Some latlng, currentPoint = Some latlng\<rparr>)"

definition mousemove :: "bool \<Rightarrow> Coordinates \<Rightarrow> drawer_state \<Rightarrow> drawer_state" where
  "mousemove isDrawingMode latlng d =
     (if \<not> isDrawingMode \<or> startPoint d = None then d else d\<lparr>currentPoint := Some latlng\<rparr>)"

text \<open>
  \<open>distanceTo\<close> is Leaflet's \<open>LatLng.distanceTo\<close>, a function of the library and a
  parameter here. The result is the drawer's state and the selection list afterwards.
\<close>

definition mouseup ::
  "(Coordinates \<Rightarrow> Coordinates \<Rightarrow> real) \<Rightarrow> bool \<Rightarrow> drawer_state \<Rightarrow> TripBounds list
     \<Rightarrow> drawer_state \<times> TripBounds list" where
  "mouseup distanceTo isDrawingMode d selectedAreas =
     (case (startPoint d, currentPoint d) of
        (Some s, Some c) \<Rightarrow>
          if isDrawingMode then
            (let bounds = latLngBounds s c
             in (\<lparr>startPoint = None, currentPoint = None\<rparr>,
                 if distanceTo s c > 100
                 then handleDrawComplete selectedAreas
                        \<lparr>north = north bounds, south = south bounds,
                         east = east bounds, west = west bounds\<rparr>
                 else selectedAreas))
          else (d, selectedAreas)
      | _ \<Rightarrow> (d, selectedAreas))"

text \<open>
  Modelled from the spec: the great-circle distance between anchor and release point,
  which the code takes from Leaflet (\<open>CRS.Earth.distance\<close>, not part of the
  repository): the haversine formula on a sphere of radius 6371000 metres, here in
  exact real arithmetic. It is the instance of \<open>distanceTo\<close> at concrete gestures.
\<close>

definition atan2 :: "real \<Rightarrow> real \<Rightarrow> real" where
  "atan2 y x =
     (if x > 0 then arctan (y / x)
      else if x < 0 \<and> y \<ge> 0 then arctan (y / x) + pi
      else if x < 0 then arctan (y / x) - pi
      else if y > 0 then pi / 2
      else if y < 0 then - pi / 2
      else 0)"

definition earthDistance :: "Coordinates \<Rightarrow> Coordinates \<Rightarrow> real" where
  "earthDistance p q =
     (let rad = pi / 180;
          lat1 = lat p * rad;
          lat2 = lat q * rad;
          sinDLat = sin ((lat q - lat p) * rad / 2);
          sinDLon = sin ((lng q - lng p) * rad / 2);
          a = sinDLat * sinDLat + cos lat1 * cos lat2 * sinDLon * sinDLon;
          c = 2 * atan2 (sqrt a) (sqrt (1 - a))
      in 6371000 * c)"

section \<open>Example values\<close>

definition ex_coord :: Coordinates where
  "ex_coord = \<lparr>lat = 48, lng = 2\<rparr>"

definition ex_act :: "string \<Rightarrow> Activity" where
  "ex_act n = \<lparr>name = n, description = ''d'', location = ex_coord, time = ''10:00 AM'',
     type_act = Landmark, price = Some ''10'', items = Some [], groundingLinks = None,
     travelDistance = Some ''2 km'', travelTime = Some ''5 min''\<rparr>"

definition ex_day :: "int \<Rightarrow> Activity list \<Rightarrow> DayPlan" where
  "ex_day k acts = \<lparr>dayNumber = k, theme = ''t'', activities = acts\<rparr>"

definition ex_plan :: "string \<Rightarrow> DayPlan list \<Rightarrow> TripPlan" where
  "ex_plan i ds = \<lparr>id_plan = i, destination = ''Paris'', summary = ''s'', itinerary = ds,
     centerCoordinates = ex_coord, currency = USD, totalEstimatedCost = 100,
     weatherAdvisory = ''w'', createdAt = None, stayLocation = None, postcardUrl = None\<rparr>"

definition ex_state :: "TripPlan option \<Rightarrow> TripPlan list \<Rightarrow> app_state" where
  "ex_state p saved = \<lparr>plan = p, loading = False, error = None, selectedDayIndex = 0,
     areaSelections = [], loadingMsgIndex = 0, savedPlans = saved, showHistory = False,
     isRefreshingLogistics = False, itineraryWidth = 480, isResizing = False,
     localStorage = None\<rparr>"

definition ex_form :: "string \<Rightarrow> trip_input" where
  "ex_form d = \<lparr>in_destination = d, in_days = 1, in_interests = [], in_currency = USD,
     in_includeStay = False, in_preSelectedStay = None, in_startTime = ''09:00'',
     in_endTime = ''20:00'', in_customInstructions = [], in_budgetCap = None,
     in_travelMonth = ''May''\<rparr>"

definition ex_box :: TripBounds where
  "ex_box = \<lparr>north = 49, south = 48, east = 3, west = 2\<rparr>"

definition ex_raw :: raw_plan where
  "ex_raw = \<lparr>raw_id = Some ''old'', raw_destination = ''Paris'', raw_summary = ''s'',
     raw_itinerary = Some [ex_day 1 [ex_act ''a0'']], raw_centerCoordinates = ex_coord,
     raw_currency = Some ''EUR'', raw_totalEstimatedCost = 100, raw_weatherAdvisory = ''w'',
     raw_createdAt = None, raw_stayLocation = Some (ex_act ''theirs''),
     raw_postcardUrl = None\<rparr>"

definition ex_request :: TripRequest where
  "ex_request = \<lparr>req_destination = ''Paris'', req_days = 1, req_interests = [],
     req_selectedAreas = None, req_currency = INR, req_startTime = None, req_endTime = None,
     req_customInstructions = None, req_budgetCap = None, req_travelMonth = None,
     req_includeStay = Some True, req_preSelectedStay = Some (ex_act ''mine'')\<rparr>"


section \<open>Reordering by drag and drop\<close>

lemma splice_move:
  fixes xs :: "'a list"
  assumes d: "d < length xs" and t: "t < length xs"
  defines "rest \<equiv> take d xs @ drop (Suc d) xs"
  defines "new \<equiv> splice_insert t (xs ! d) rest"
  shows "length new = length xs" and "new ! t = xs ! d"
    and "take t new @ drop (Suc t) new = rest" and "mset new = mset xs"
proof -
  have len_rest: "Suc (length rest) = length xs"
    using d by (simp add: rest_def)
  then have t_le: "t \<le> length rest" using t by simp
  show "length new = length xs"
    using len_rest t_le by (simp add: new_def splice_insert_def)
  show "new ! t = xs ! d"
    using t_le by (simp add: new_def splice_insert_def nth_append)
  show "take t new @ drop (Suc t) new = rest"
    using t_le by (simp add: new_def splice_insert_def)
  have "mset rest = mset (take t rest) + mset (drop t rest)"
    by (simp only: mset_append [symmetric] append_take_drop_id)
  then have "mset new = add_mset (xs ! d) (mset rest)"
    by (simp add: new_def splice_insert_def)
  also have "\<dots> = mset (take d xs @ xs ! d # drop (Suc d) xs)"
    by (simp add: rest_def)
  also have "\<dots> = mset xs"
    using d by (simp only: id_take_nth_drop [symmetric])
  finally show "mset new = mset xs" .
qed

lemma setDayActivities_ok:
  assumes "dayIndex < length (itinerary p)"
  shows "\<exists>p'. setDayActivities p dayIndex acts = Inr p'
     \<and> activities (itinerary p' ! dayIndex) = acts
     \<and> length (itinerary p') = length (itinerary p)
     \<and> (\<forall>j < length (itinerary p). j \<noteq> dayIndex \<longrightarrow> itinerary p' ! j = itinerary p ! j)
     \<and> dayNumber (itinerary p' ! dayIndex) = dayNumber (itinerary p ! dayIndex)
     \<and> theme (itinerary p' ! dayIndex) = theme (itinerary p ! dayIndex)
     \<and> p'\<lparr>itinerary := itinerary p\<rparr> = p"
  using assms by (simp add: setDayActivities_def)

text \<open>
  C1. In a loaded plan, for a day of the itinerary and a drag from position \<open>src\<close>
  to another position \<open>tgt\<close> of that day, \<open>onDrop\<close> calls the reorder handler with
  the list \<open>new\<close> that has the dragged activity at \<open>tgt\<close> and, around it, the other
  activities in their old order. Up to its \<open>await\<close> the handler stores exactly
  \<open>new\<close> as the activities of the day and leaves the other days alone. \<open>new\<close> is a
  permutation of the old list: it holds the same activities (the same values, hence
  the same names and locations), each as often as before.
\<close>

theorem reorder_applies_permutation:
  assumes loaded: "plan st = Some p"
    and day: "dayIndex < length (itinerary p)"
    and acts: "acts = activities (itinerary p ! dayIndex)"
    and src: "src < length acts" and tgt: "tgt < length acts" and neq: "src \<noteq> tgt"
  shows "\<exists>new st' p'.
      onDrop (Some src) tgt acts = Some (Inr new)
    \<and> handleReorderActivities_sync st dayIndex new = Inr st'
    \<and> plan st' = Some p'
    \<and> activities (itinerary p' ! dayIndex) = new
    \<and> length new = length acts
    \<and> new ! tgt = acts ! src
    \<and> take tgt new @ drop (Suc tgt) new = take src acts @ drop (Suc src) acts
    \<and> mset new = mset acts
    \<and> (\<forall>a \<in> set new. a \<in> set acts)
    \<and> mset (map (\<lambda>a. (name a, location a)) new) = mset (map (\<lambda>a. (name a, location a)) acts)
    \<and> length (itinerary p') = length (itinerary p)
    \<and> (\<forall>j < length (itinerary p). j \<noteq> dayIndex \<longrightarrow> itinerary p' ! j = itinerary p ! j)"
proof -
  define new where "new = splice_insert tgt (acts ! src) (take src acts @ drop (Suc src) acts)"
  have drop_eq: "onDrop (Some src) tgt acts = Some (Inr new)"
    using src neq by (simp add: onDrop_def splice_remove_def new_def)
  note mv = splice_move [OF src tgt, folded new_def]
  from setDayActivities_ok [OF day, of new] obtain p' where
    p': "setDayActivities p dayIndex new = Inr p'"
      "activities (itinerary p' ! dayIndex) = new"
      "length (itinerary p') = length (itinerary p)"
      "\<forall>j < length (itinerary p). j \<noteq> dayIndex \<longrightarrow> itinerary p' ! j = itinerary p ! j"
    by blast
  define st' where "st' = st\<lparr>plan := Some p', isRefreshingLogistics := True\<rparr>"
  have sync: "handleReorderActivities_sync st dayIndex new = Inr st'"
    using loaded p'(1) by (simp add: handleReorderActivities_sync_def st'_def)
  have live: "plan st' = Some p'" by (simp add: st'_def)
  have members: "\<forall>a \<in> set new. a \<in> set acts"
    using mv(4) by (metis set_mset_mset)
  have keys: "mset (map (\<lambda>a. (name a, location a)) new) = mset (map (\<lambda>a. (name a, location a)) acts)"
    using mv(4) by (metis mset_map)
  from drop_eq sync live p'(2,3,4) mv members keys show ?thesis by blast
qed


theorem reorder_applies_permutation_witness:
  "(2::nat) < length (map ex_act [''a0'', ''a1'', ''a2'', ''a3''])
   \<and> onDrop (Some 2) 0 (map ex_act [''a0'', ''a1'', ''a2'', ''a3''])
       = Some (Inr (map ex_act [''a2'', ''a0'', ''a1'', ''a3'']))
   \<and> (\<exists>st' p'.
         handleReorderActivities_sync
           (ex_state (Some (ex_plan ''p'' [ex_day 1 (map ex_act [''a0'', ''a1'', ''a2'', ''a3''])])) [])
           0 (map ex_act [''a2'', ''a0'', ''a1'', ''a3'']) = Inr st'
       \<and> plan st' = Some p'
       \<and> activities (itinerary p' ! 0) = map ex_act [''a2'', ''a0'', ''a1'', ''a3''])"
proof -
  let ?acts = "map ex_act [''a0'', ''a1'', ''a2'', ''a3'']"
  let ?new = "map ex_act [''a2'', ''a0'', ''a1'', ''a3'']"
  let ?p = "ex_plan ''p'' [ex_day 1 ?acts]"
  let ?st = "ex_state (Some ?p) []"
  have ev: "onDrop (Some 2) 0 ?acts = Some (Inr ?new)"
    by (simp add: onDrop_def splice_remove_def splice_insert_def)
  have h1: "plan ?st = Some ?p" by (simp add: ex_state_def)
  have h2: "0 < length (itinerary ?p)" by (simp add: ex_plan_def)
  have h3: "?acts = activities (itinerary ?p ! 0)" by (simp add: ex_plan_def ex_day_def)
  have h4: "2 < length ?acts" and h5: "0 < length ?acts" and h6: "(2::nat) \<noteq> 0" by simp_all
  from reorder_applies_permutation [OF h1 h2 h3 h4 h5 h6] ev h4 show ?thesis
    by auto
qed

section \<open>The logistics refresh\<close>

lemma refreshed_frame:
  "name (refreshed es a i) = name a"
  "description (refreshed es a i) = description a"
  "location (refreshed es a i) = location a"
  "type_act (refreshed es a i) = type_act a"
  "price (refreshed es a i) = price a"
  "items (refreshed es a i) = items a"
  "groundingLinks (refreshed es a i) = groundingLinks a"
  "(refreshed es a i)\<lparr>time := time a, travelDistance := travelDistance a,
      travelTime := travelTime a\<rparr> = a"
  by (simp_all add: refreshed_def)

lemma refreshed_missing:
  assumes "length es \<le> i \<or> es ! i = None"
  shows "refreshed es a i = a\<lparr>travelDistance := Some [], travelTime := Some []\<rparr>"
  using assms by (auto simp: refreshed_def entry_at_def opt_field_def js_or_def)

lemma refreshed_fields:
  assumes "i < length es" and "es ! i = Some e"
  shows "time (refreshed es a i) = js_or (lg_time e) (time a)"
    and "travelDistance (refreshed es a i) = Some (js_or (lg_travelDistance e) [])"
    and "travelTime (refreshed es a i) = Some (js_or (lg_travelTime e) [])"
  using assms by (simp_all add: refreshed_def entry_at_def opt_field_def)

lemma recalculateLogistics_Inr:
  assumes "recalculateLogistics acts dest stay startTime apiKey response = Inr out"
  shows "\<exists>es. out = map (\<lambda>i. refreshed es (acts ! i) i) [0 ..< length acts]"
  using assms
  by (auto simp: recalculateLogistics_def split: sum.splits reply.splits parsed.splits if_splits)

lemma recalculateLogistics_array:
  assumes "getApiKey apiKey = Inr k"
  shows "recalculateLogistics acts dest stay startTime apiKey (Resolved (JsonValue es))
    = Inr (map (\<lambda>i. refreshed es (acts ! i) i) [0 ..< length acts])"
  using assms by (simp add: recalculateLogistics_def)

text \<open>
  C2. Whenever \<open>recalculateLogistics\<close> returns a list, for any reply of the
  collaborator, the list has the length of the input, and the activity at each
  position is the input activity of that position with at most \<open>time\<close>,
  \<open>travelDistance\<close> and \<open>travelTime\<close> changed: its name, description, location,
  type, price, items and grounding links are those of the input. It does return a
  list whenever the API key is set and the reply parses to an array. (It fails when
  the key is missing, the request is rejected, the text does not parse, or the text
  is \<open>null\<close> and the list is not empty.)
\<close>

theorem recalculateLogistics_frame:
  "(\<forall>out. recalculateLogistics acts dest stay startTime apiKey response = Inr out \<longrightarrow>
       length out = length acts
     \<and> (\<forall>i < length acts.
           name (out ! i) = name (acts ! i)
         \<and> description (out ! i) = description (acts ! i)
         \<and> location (out ! i) = location (acts ! i)
         \<and> type_act (out ! i) = type_act (acts ! i)
         \<and> price (out ! i) = price (acts ! i)
         \<and> items (out ! i) = items (acts ! i)
         \<and> groundingLinks (out ! i) = groundingLinks (acts ! i)
         \<and> (out ! i)\<lparr>time := time (acts ! i), travelDistance := travelDistance (acts ! i),
               travelTime := travelTime (acts ! i)\<rparr> = acts ! i))
   \<and> ((\<exists>k. getApiKey apiKey = Inr k) \<and> (\<exists>es. response = Resolved (JsonValue es)) \<longrightarrow>
        (\<exists>out. recalculateLogistics acts dest stay startTime apiKey response = Inr out))"
proof -
  have frame: "length out = length acts
     \<and> (\<forall>i < length acts.
           name (out ! i) = name (acts ! i)
         \<and> description (out ! i) = description (acts ! i)
         \<and> location (out ! i) = location (acts ! i)
         \<and> type_act (out ! i) = type_act (acts ! i)
         \<and> price (out ! i) = price (acts ! i)
         \<and> items (out ! i) = items (acts ! i)
         \<and> groundingLinks (out ! i) = groundingLinks (acts ! i)
         \<and> (out ! i)\<lparr>time := time (acts ! i), travelDistance := travelDistance (acts ! i),
               travelTime := travelTime (acts ! i)\<rparr> = acts ! i)"
    if "recalculateLogistics acts dest stay startTime apiKey response = Inr out" for out
  proof -
    from that obtain es where out: "out = map (\<lambda>i. refreshed es (acts ! i) i) [0 ..< length acts]"
      using recalculateLogistics_Inr by blast
    show ?thesis by (simp add: out refreshed_frame)
  qed
  have total: "\<exists>out. recalculateLogistics acts dest stay startTime apiKey response = Inr out"
    if "(\<exists>k. getApiKey apiKey = Inr k) \<and> (\<exists>es. response = Resolved (JsonValue es))"
  proof -
    from that obtain k es where "getApiKey apiKey = Inr k" "response = Resolved (JsonValue es)"
      by blast
    then show ?thesis by (simp add: recalculateLogistics_array)
  qed
  from frame total show ?thesis by blast
qed

theorem recalculateLogistics_frame_witness:
  "(\<exists>k. getApiKey (Some ''k'') = Inr k)
   \<and> (\<exists>out. recalculateLogistics [ex_act ''a0'', ex_act ''a1''] ''Paris'' None ''09:00 AM'' (Some ''k'')
          (Resolved (JsonValue [Some \<lparr>lg_time = Some ''11:00 AM'', lg_travelDistance = Some ''3 km'',
             lg_travelTime = Some ''9 min''\<rparr>])) = Inr out
        \<and> length out = 2
        \<and> name (out ! 0) = ''a0'' \<and> name (out ! 1) = ''a1''
        \<and> location (out ! 0) = ex_coord \<and> location (out ! 1) = ex_coord)"
proof -
  let ?acts = "[ex_act ''a0'', ex_act ''a1'']"
  let ?resp = "Resolved (JsonValue [Some \<lparr>lg_time = Some ''11:00 AM'',
     lg_travelDistance = Some ''3 km'', lg_travelTime = Some ''9 min''\<rparr>])"
  note t = recalculateLogistics_frame [of ?acts "''Paris''" None "''09:00 AM''" "Some ''k''" ?resp]
  have key: "\<exists>k. getApiKey (Some ''k'') = Inr k" by (simp add: getApiKey_def)
  have arr: "\<exists>es. ?resp = Resolved (JsonValue es)" by simp
  from t key arr obtain out where
    run: "recalculateLogistics ?acts ''Paris'' None ''09:00 AM'' (Some ''k'') ?resp = Inr out"
    by blast
  with t have len: "length out = length ?acts"
    and fr: "\<forall>i < length ?acts. name (out ! i) = name (?acts ! i)
       \<and> location (out ! i) = location (?acts ! i)"
    by blast+
  from len have l2: "length out = 2" by simp
  from fr have n0: "name (out ! 0) = ''a0''" and c0: "location (out ! 0) = ex_coord"
    by (simp_all add: ex_act_def)
  from fr have "name (out ! 1) = name (?acts ! 1) \<and> location (out ! 1) = location (?acts ! 1)"
    by simp
  then have n1: "name (out ! 1) = ''a1''" and c1: "location (out ! 1) = ex_coord"
    by (simp_all add: ex_act_def)
  from key run l2 n0 n1 c0 c1 show ?thesis by blast
qed

text \<open>
  C10. With the API key set, for a reply that parses to an array of any length,
  \<open>recalculateLogistics\<close> returns a list of the length of the input. At a position
  beyond the end of the reply (or where the reply holds no object) the output is the
  input activity with its own time and the empty string for \<open>travelDistance\<close> and
  \<open>travelTime\<close>. Where the reply holds an object, each of the three fields falls
  back on its own when it is absent: \<open>time\<close> to the input's time, the other two
  to the empty string.
\<close>

theorem recalculateLogistics_short_response:
  assumes key: "getApiKey apiKey = Inr k"
  shows "\<exists>out. recalculateLogistics acts dest stay startTime apiKey (Resolved (JsonValue es)) = Inr out
    \<and> length out = length acts
    \<and> (\<forall>i < length acts. length es \<le> i \<or> es ! i = None \<longrightarrow>
          out ! i = (acts ! i)\<lparr>travelDistance := Some [], travelTime := Some []\<rparr>
        \<and> time (out ! i) = time (acts ! i)
        \<and> travelDistance (out ! i) = Some []
        \<and> travelTime (out ! i) = Some [])
    \<and> (\<forall>i < length acts. \<forall>e. i < length es \<and> es ! i = Some e \<longrightarrow>
          time (out ! i) = js_or (lg_time e) (time (acts ! i))
        \<and> travelDistance (out ! i) = Some (js_or (lg_travelDistance e) [])
        \<and> travelTime (out ! i) = Some (js_or (lg_travelTime e) [])
        \<and> (lg_time e = None \<longrightarrow> time (out ! i) = time (acts ! i))
        \<and> (lg_travelDistance e = None \<longrightarrow> travelDistance (out ! i) = Some [])
        \<and> (lg_travelTime e = None \<longrightarrow> travelTime (out ! i) = Some []))"
proof -
  define out where "out = map (\<lambda>i. refreshed es (acts ! i) i) [0 ..< length acts]"
  have run: "recalculateLogistics acts dest stay startTime apiKey (Resolved (JsonValue es)) = Inr out"
    unfolding out_def using key by (rule recalculateLogistics_array)
  have len: "length out = length acts" by (simp add: out_def)
  have nth: "out ! i = refreshed es (acts ! i) i" if "i < length acts" for i
    using that by (simp add: out_def)
  have missing: "\<forall>i < length acts. length es \<le> i \<or> es ! i = None \<longrightarrow>
          out ! i = (acts ! i)\<lparr>travelDistance := Some [], travelTime := Some []\<rparr>
        \<and> time (out ! i) = time (acts ! i)
        \<and> travelDistance (out ! i) = Some []
        \<and> travelTime (out ! i) = Some []"
    by (simp add: nth refreshed_missing)
  have present: "\<forall>i < length acts. \<forall>e. i < length es \<and> es ! i = Some e \<longrightarrow>
          time (out ! i) = js_or (lg_time e) (time (acts ! i))
        \<and> travelDistance (out ! i) = Some (js_or (lg_travelDistance e) [])
        \<and> travelTime (out ! i) = Some (js_or (lg_travelTime e) [])
        \<and> (lg_time e = None \<longrightarrow> time (out ! i) = time (acts ! i))
        \<and> (lg_travelDistance e = None \<longrightarrow> travelDistance (out ! i) = Some [])
        \<and> (lg_travelTime e = None \<longrightarrow> travelTime (out ! i) = Some [])"
    by (simp add: nth refreshed_fields js_or_def)
  from run len missing present show ?thesis by blast
qed


theorem recalculateLogistics_short_response_witness:
  "getApiKey (Some ''k'') = Inr ''k''
   \<and> length [Some \<lparr>lg_time = None, lg_travelDistance = Some ''3 km'', lg_travelTime = None\<rparr>]
       < length [ex_act ''a0'', ex_act ''a1'']
   \<and> (\<exists>out. recalculateLogistics [ex_act ''a0'', ex_act ''a1''] ''Paris'' None ''09:00 AM'' (Some ''k'')
          (Resolved (JsonValue [Some \<lparr>lg_time = None, lg_travelDistance = Some ''3 km'',
             lg_travelTime = None\<rparr>])) = Inr out
        \<and> length out = 2
        \<and> time (out ! 0) = ''10:00 AM''
        \<and> travelDistance (out ! 0) = Some ''3 km''
        \<and> travelTime (out ! 0) = Some []
        \<and> out ! 1 = (ex_act ''a1'')\<lparr>travelDistance := Some [], travelTime := Some []\<rparr>)"
proof -
  let ?acts = "[ex_act ''a0'', ex_act ''a1'']"
  let ?e = "\<lparr>lg_time = None, lg_travelDistance = Some ''3 km'', lg_travelTime = None\<rparr>"
  let ?es = "[Some ?e]"
  have key: "getApiKey (Some ''k'') = Inr ''k''" by (simp add: getApiKey_def)
  from recalculateLogistics_short_response [OF key, of ?acts "''Paris''" None "''09:00 AM''" ?es]
  obtain out where
    run: "recalculateLogistics ?acts ''Paris'' None ''09:00 AM'' (Some ''k'')
        (Resolved (JsonValue ?es)) = Inr out"
    and len: "length out = length ?acts"
    and missing: "\<forall>i < length ?acts. length ?es \<le> i \<or> ?es ! i = None \<longrightarrow>
        out ! i = (?acts ! i)\<lparr>travelDistance := Some [], travelTime := Some []\<rparr>"
    and present: "\<forall>i < length ?acts. \<forall>e. i < length ?es \<and> ?es ! i = Some e \<longrightarrow>
          time (out ! i) = js_or (lg_time e) (time (?acts ! i))
        \<and> travelDistance (out ! i) = Some (js_or (lg_travelDistance e) [])
        \<and> travelTime (out ! i) = Some (js_or (lg_travelTime e) [])"
    by blast
  from len have l2: "length out = 2" by simp
  from missing have "(1::nat) < length ?acts \<longrightarrow> length ?es \<le> 1 \<or> ?es ! 1 = None \<longrightarrow>
        out ! 1 = (?acts ! 1)\<lparr>travelDistance := Some [], travelTime := Some []\<rparr>"
    by blast
  then have o1: "out ! 1 = (ex_act ''a1'')\<lparr>travelDistance := Some [], travelTime := Some []\<rparr>"
    by simp
  from present [rule_format, of 0 ?e] have "time (out ! 0) = js_or (lg_time ?e) (time (?acts ! 0))
        \<and> travelDistance (out ! 0) = Some (js_or (lg_travelDistance ?e) [])
        \<and> travelTime (out ! 0) = Some (js_or (lg_travelTime ?e) [])"
    by simp
  then have o0: "time (out ! 0) = ''10:00 AM''" "travelDistance (out ! 0) = Some ''3 km''"
    "travelTime (out ! 0) = Some []"
    by (simp_all add: js_or_def ex_act_def)
  have short: "length ?es < length ?acts" by simp
  from key short run l2 o0 o1 show ?thesis by blast
qed

text \<open>
  The whole reorder handler, in a loaded plan and for a day of the itinerary: whether
  the refresh succeeds or fails, the handler ends with the syncing flag off and the
  day's activities in the requested order, by name and location.
\<close>

lemma handleReorderActivities_completes:
  assumes loaded: "plan st = Some p" and day: "dayIndex < length (itinerary p)"
  shows "\<exists>st' p'. handleReorderActivities st dayIndex new apiKey response = Inr st'
    \<and> plan st' = Some p'
    \<and> \<not> isRefreshingLogistics st'
    \<and> map name (activities (itinerary p' ! dayIndex)) = map name new
    \<and> map location (activities (itinerary p' ! dayIndex)) = map location new"
proof -
  from setDayActivities_ok [OF day, of new] obtain p1 where
    p1: "setDayActivities p dayIndex new = Inr p1"
      "activities (itinerary p1 ! dayIndex) = new"
      "length (itinerary p1) = length (itinerary p)"
    by blast
  let ?st1 = "st\<lparr>plan := Some p1, isRefreshingLogistics := True\<rparr>"
  let ?res = "recalculateLogistics new (destination p) (stayLocation p) ''09:00 AM'' apiKey response"
  show ?thesis
  proof (cases ?res)
    case (Inl e)
    with loaded p1(1) have "handleReorderActivities st dayIndex new apiKey response
        = Inr (?st1\<lparr>isRefreshingLogistics := False\<rparr>)"
      by (simp add: handleReorderActivities_def Let_def)
    with p1(2) show ?thesis by simp
  next
    case (Inr synced)
    then obtain es where synced: "synced = map (\<lambda>i. refreshed es (new ! i) i) [0 ..< length new]"
      using recalculateLogistics_Inr by blast
    have "map name synced = map name (map (\<lambda>i. new ! i) [0 ..< length new])"
      "map location synced = map location (map (\<lambda>i. new ! i) [0 ..< length new])"
      by (simp_all add: synced refreshed_frame comp_def)
    then have names: "map name synced = map name new" "map location synced = map location new"
      by (simp_all only: map_nth)
    from p1(3) day have "dayIndex < length (itinerary p1)" by simp
    from setDayActivities_ok [OF this, of synced] obtain p2 where
      p2: "setDayActivities p1 dayIndex synced = Inr p2"
        "activities (itinerary p2 ! dayIndex) = synced"
      by blast
    from loaded p1(1) Inr p2(1) have "handleReorderActivities st dayIndex new apiKey response
        = Inr (?st1\<lparr>plan := Some p2, isRefreshingLogistics := False\<rparr>)"
      by (simp add: handleReorderActivities_def Let_def)
    with p2(2) names show ?thesis by simp
  qed
qed

section \<open>Editing and replacing an activity\<close>









text \<open>
  A negative index is no position of the day's activities. The modal of the stay card
  passes \<open>-1\<close>: the collaborator is called and its activity is returned, the store
  sets a property that is no element of the array, and the plan is as it was.
\<close>

lemma setDayActivities_same:
  assumes "dayIndex < length (itinerary p)"
  shows "setDayActivities p dayIndex (activities (itinerary p ! dayIndex)) = Inr p"
  using assms by (simp add: setDayActivities_def)

lemma handleReplaceActivity_negative_index:
  fixes cur :: Activity and p :: TripPlan and dayIndex :: nat
  assumes loaded: "plan st = Some p" and day: "dayIndex < length (itinerary p)"
    and neg: "i < 0"
  defines "call \<equiv> \<lparr>rc_currentActivity = cur, rc_destination = destination p,
      rc_theme = theme (itinerary p ! dayIndex), rc_currency = currency p,
      rc_excludedPlaces = excludedPlaces p\<rparr>"
  assumes ok: "collab call = Inr newActivity"
  shows "handleReplaceActivity st dayIndex i cur collab = (st, [call], Inr (Some newActivity))"
proof -
  have "array_store (activities (itinerary p ! dayIndex)) i newActivity
      = Inr (activities (itinerary p ! dayIndex))"
    using neg by (simp add: array_store_def)
  moreover have "st\<lparr>plan := Some p\<rparr> = st" using loaded by simp
  ultimately show ?thesis
    using loaded day ok setDayActivities_same [OF day]
    by (simp add: handleReplaceActivity_def call_def [symmetric] Let_def)
qed

section \<open>Saved-plan archive\<close>

lemma length_filter_neq_less:
  assumes "x \<in> set xs" and "\<not> P x"
  shows "length (filter P xs) < length xs"
  using assms by (induction xs) (auto simp: less_Suc_eq_le)

lemma length_filter_distinct_key:
  assumes "distinct (map f xs)" and "x \<in> set xs"
  shows "Suc (length (filter (\<lambda>y. f y \<noteq> f x) xs)) = length xs"
  using assms
proof (induction xs)
  case Nil
  then show ?case by simp
next
  case (Cons y ys)
  show ?case
  proof (cases "y = x")
    case True
    with Cons.prems have "f x \<notin> f ` set ys" by simp
    then have "\<forall>z\<in>set ys. f z \<noteq> f x" by (metis imageI)
    then have "filter (\<lambda>z. f z \<noteq> f x) ys = ys" by (simp add: filter_id_conv)
    with True show ?thesis by simp
  next
    case False
    with Cons.prems have "x \<in> set ys" "f y \<noteq> f x" "distinct (map f ys)" by auto
    with Cons.IH show ?thesis by simp
  qed
qed

text \<open>
  C3. \<open>handleSavePlan\<close> puts the copy of the plan stamped with the save time at the
  front of the archive; the rest of the new archive is the old archive without the
  entries of the same id, in their old order. So no other entry has that id, the
  length does not grow when the id was present (it stays the same when the ids of the
  archive were distinct), and it grows by exactly one when the id was absent. The
  same list is written to local storage.
\<close>

theorem handleSavePlan_upsert:
  fixes st :: app_state and p :: TripPlan and now :: int
  defines "old \<equiv> savedPlans st"
  defines "new \<equiv> savedPlans (handleSavePlan st now p)"
  shows "new = p\<lparr>createdAt := Some now\<rparr> # filter (\<lambda>q. id_plan q \<noteq> id_plan p) old
    \<and> (\<forall>q \<in> set (tl new). id_plan q \<noteq> id_plan p \<and> q \<in> set old)
    \<and> ((\<exists>q \<in> set old. id_plan q = id_plan p) \<longrightarrow> length new \<le> length old)
    \<and> ((\<exists>q \<in> set old. id_plan q = id_plan p) \<and> distinct (map id_plan old)
          \<longrightarrow> length new = length old)
    \<and> ((\<forall>q \<in> set old. id_plan q \<noteq> id_plan p) \<longrightarrow> length new = length old + 1)
    \<and> localStorage (handleSavePlan st now p) = Some new
    \<and> plan (handleSavePlan st now p) = plan st"
proof -
  have new_eq: "new = p\<lparr>createdAt := Some now\<rparr> # filter (\<lambda>q. id_plan q \<noteq> id_plan p) old"
    by (simp add: new_def old_def handleSavePlan_def Let_def)
  have present: "length new \<le> length old" if "\<exists>q \<in> set old. id_plan q = id_plan p"
  proof -
    from that obtain q where "q \<in> set old" "\<not> id_plan q \<noteq> id_plan p" by auto
    then have "length (filter (\<lambda>q. id_plan q \<noteq> id_plan p) old) < length old"
      by (rule length_filter_neq_less)
    with new_eq show ?thesis by simp
  qed
  have unique: "length new = length old"
    if "\<exists>q \<in> set old. id_plan q = id_plan p" and "distinct (map id_plan old)"
  proof -
    from that obtain q where q: "q \<in> set old" "id_plan q = id_plan p" by auto
    from length_filter_distinct_key [OF that(2) q(1)] q(2) new_eq show ?thesis by simp
  qed
  have absent: "length new = length old + 1" if "\<forall>q \<in> set old. id_plan q \<noteq> id_plan p"
  proof -
    from that have "filter (\<lambda>q. id_plan q \<noteq> id_plan p) old = old"
      by (simp add: filter_id_conv)
    with new_eq show ?thesis by simp
  qed
  have stored: "localStorage (handleSavePlan st now p) = Some new"
    by (simp add: new_def handleSavePlan_def Let_def)
  have live: "plan (handleSavePlan st now p) = plan st"
    by (simp add: handleSavePlan_def Let_def)
  from new_eq present unique absent stored live show ?thesis by auto
qed

theorem handleSavePlan_upsert_witness:
  "(\<exists>q \<in> set [ex_plan ''a'' [], ex_plan ''b'' []]. id_plan q = id_plan (ex_plan ''b'' [ex_day 1 []]))
   \<and> distinct (map id_plan [ex_plan ''a'' [], ex_plan ''b'' []])
   \<and> savedPlans (handleSavePlan (ex_state None [ex_plan ''a'' [], ex_plan ''b'' []]) 7
        (ex_plan ''b'' [ex_day 1 []]))
      = [(ex_plan ''b'' [ex_day 1 []])\<lparr>createdAt := Some 7\<rparr>, ex_plan ''a'' []]
   \<and> length (savedPlans (handleSavePlan (ex_state None [ex_plan ''a'' [], ex_plan ''b'' []]) 7
        (ex_plan ''b'' [ex_day 1 []]))) = 2
   \<and> length (savedPlans (handleSavePlan (ex_state None [ex_plan ''a'' []]) 7
        (ex_plan ''b'' []))) = 2"
  using handleSavePlan_upsert [of "ex_state None [ex_plan ''a'' [], ex_plan ''b'' []]" 7
      "ex_plan ''b'' [ex_day 1 []]"]
    handleSavePlan_upsert [of "ex_state None [ex_plan ''a'' []]" 7 "ex_plan ''b'' []"]
  by (simp add: ex_state_def ex_plan_def)

section \<open>Drawing a region\<close>

lemma latLngBounds_ordered:
  "south (latLngBounds a b) \<le> north (latLngBounds a b)"
  "west (latLngBounds a b) \<le> east (latLngBounds a b)"
  by (simp_all add: latLngBounds_def)

lemma latLngBounds_eta:
  "\<lparr>north = north (latLngBounds a b), south = south (latLngBounds a b),
    east = east (latLngBounds a b), west = west (latLngBounds a b)\<rparr> = latLngBounds a b"
  by (simp add: latLngBounds_def)

lemma atan2_sin_cos:
  assumes "0 \<le> t" and "t < pi / 2"
  shows "atan2 (sqrt (sin t * sin t)) (sqrt (1 - sin t * sin t)) = t"
proof -
  have s: "0 \<le> sin t" using assms by (simp add: sin_ge_zero)
  have c: "0 < cos t" using assms by (simp add: cos_gt_zero_pi)
  have "1 - sin t * sin t = cos t * cos t"
    using sin_cos_squared_add [of t] by (simp add: power2_eq_square algebra_simps)
  then have c2: "sqrt (1 - sin t * sin t) = cos t" using c by simp
  have s2: "sqrt (sin t * sin t) = sin t" using s by simp
  have "arctan (sin t / cos t) = t"
    using arctan_tan [of t] assms by (simp add: tan_def)
  with c c2 s2 show ?thesis by (simp add: atan2_def)
qed

lemma earthDistance_equator:
  assumes "0 \<le> x" and "x < 180"
  shows "earthDistance \<lparr>lat = 0, lng = 0\<rparr> \<lparr>lat = 0, lng = x\<rparr> = 6371000 * (x * pi / 180)"
proof -
  define t where "t = x * (pi / 180) / 2"
  have t0: "0 \<le> t" using assms by (simp add: t_def)
  have t1: "t < pi / 2" using assms by (simp add: t_def)
  have "earthDistance \<lparr>lat = 0, lng = 0\<rparr> \<lparr>lat = 0, lng = x\<rparr>
      = 6371000 * (2 * atan2 (sqrt (sin t * sin t)) (sqrt (1 - sin t * sin t)))"
    by (simp add: earthDistance_def Let_def t_def)
  also have "\<dots> = 6371000 * (2 * t)"
    by (simp only: atan2_sin_cos [OF t0 t1])
  also have "\<dots> = 6371000 * (x * pi / 180)"
    by (simp add: t_def)
  finally show ?thesis .
qed

lemma earthDistance_same: "earthDistance p p = 0"
  by (simp add: earthDistance_def Let_def atan2_def)

lemma earthDistance_one_degree:
  "earthDistance \<lparr>lat = 0, lng = 0\<rparr> \<lparr>lat = 0, lng = 1\<rparr> > 100"
proof -
  have "earthDistance \<lparr>lat = 0, lng = 0\<rparr> \<lparr>lat = 0, lng = 1\<rparr> = 6371000 * (1 * pi / 180)"
    by (rule earthDistance_equator) simp_all
  moreover have "6371000 * (1 * pi / 180) > (100::real)"
    using pi_ge_two by simp
  ultimately show ?thesis by simp
qed

text \<open>
  C5, as the code has it. A gesture in drawing mode (press at \<open>s\<close>, move to \<open>c\<close>,
  release) ends with the drawer idle. When the distance from \<open>s\<close> to \<open>c\<close> exceeds
  100, exactly one box is appended to the selection list: the smallest rectangle
  that holds both points, with \<open>north \<ge> south\<close> and \<open>east \<ge> west\<close>. When the
  distance does not exceed 100 the list is unchanged, and nothing fails. For a
  distance function that gives no more than 100 from a point to itself, an appended
  box is not a single point: \<open>north > south\<close> or \<open>east > west\<close>.
\<close>

theorem mouseup_selection:
  fixes distanceTo :: "Coordinates \<Rightarrow> Coordinates \<Rightarrow> real"
  defines "idle \<equiv> \<lparr>startPoint = None, currentPoint = None\<rparr>"
  shows "mousemove True c (mousedown True s d0) = \<lparr>startPoint = Some s, currentPoint = Some c\<rparr>
    \<and> (distanceTo s c > 100 \<longrightarrow>
         mouseup distanceTo True \<lparr>startPoint = Some s, currentPoint = Some c\<rparr> areas
           = (idle, areas @ [latLngBounds s c])
       \<and> north (latLngBounds s c) = max (lat s) (lat c)
       \<and> south (latLngBounds s c) = min (lat s) (lat c)
       \<and> east (latLngBounds s c) = max (lng s) (lng c)
       \<and> west (latLngBounds s c) = min (lng s) (lng c)
       \<and> north (latLngBounds s c) \<ge> south (latLngBounds s c)
       \<and> east (latLngBounds s c) \<ge> west (latLngBounds s c))
    \<and> (\<not> distanceTo s c > 100 \<longrightarrow>
         mouseup distanceTo True \<lparr>startPoint = Some s, currentPoint = Some c\<rparr> areas
           = (idle, areas))
    \<and> ((\<forall>p. distanceTo p p \<le> 100) \<and> distanceTo s c > 100 \<longrightarrow>
         north (latLngBounds s c) > south (latLngBounds s c)
       \<or> east (latLngBounds s c) > west (latLngBounds s c))"
proof -
  have gesture: "mousemove True c (mousedown True s d0)
      = \<lparr>startPoint = Some s, currentPoint = Some c\<rparr>"
    by (simp add: mousemove_def mousedown_def)
  have far: "mouseup distanceTo True \<lparr>startPoint = Some s, currentPoint = Some c\<rparr> areas
      = (idle, areas @ [latLngBounds s c])" if "distanceTo s c > 100"
    using that
    by (simp add: mouseup_def Let_def handleDrawComplete_def latLngBounds_eta idle_def)
  have box: "north (latLngBounds s c) = max (lat s) (lat c)"
    "south (latLngBounds s c) = min (lat s) (lat c)"
    "east (latLngBounds s c) = max (lng s) (lng c)"
    "west (latLngBounds s c) = min (lng s) (lng c)"
    by (simp_all add: latLngBounds_def)
  have near: "mouseup distanceTo True \<lparr>startPoint = Some s, currentPoint = Some c\<rparr> areas
      = (idle, areas)" if "\<not> distanceTo s c > 100"
    using that by (simp add: mouseup_def Let_def idle_def)
  have proper: "north (latLngBounds s c) > south (latLngBounds s c)
       \<or> east (latLngBounds s c) > west (latLngBounds s c)"
    if "(\<forall>p. distanceTo p p \<le> 100) \<and> distanceTo s c > 100"
  proof -
    from that have "s \<noteq> c" by (metis not_less)
    then have "lat s \<noteq> lat c \<or> lng s \<noteq> lng c" by (cases s, cases c) auto
    then show ?thesis by (auto simp: latLngBounds_def)
  qed
  from gesture far box near proper latLngBounds_ordered [of s c] show ?thesis by blast
qed

theorem mouseup_selection_witness:
  "earthDistance \<lparr>lat = 0, lng = 0\<rparr> \<lparr>lat = 0, lng = 1\<rparr> > 100
   \<and> mouseup earthDistance True
        \<lparr>startPoint = Some \<lparr>lat = 0, lng = 0\<rparr>, currentPoint = Some \<lparr>lat = 0, lng = 1\<rparr>\<rparr> [ex_box]
      = (\<lparr>startPoint = None, currentPoint = None\<rparr>,
         [ex_box, \<lparr>north = 0, south = 0, east = 1, west = 0\<rparr>])
   \<and> \<not> earthDistance \<lparr>lat = 0, lng = 0\<rparr> \<lparr>lat = 0, lng = 0\<rparr> > 100
   \<and> mouseup earthDistance True
        \<lparr>startPoint = Some \<lparr>lat = 0, lng = 0\<rparr>, currentPoint = Some \<lparr>lat = 0, lng = 0\<rparr>\<rparr> [ex_box]
      = (\<lparr>startPoint = None, currentPoint = None\<rparr>, [ex_box])
   \<and> (\<exists>p. earthDistance p p \<le> 100)
   \<and> west (latLngBounds \<lparr>lat = 0, lng = 0\<rparr> \<lparr>lat = 0, lng = 1\<rparr>)
       < east (latLngBounds \<lparr>lat = 0, lng = 0\<rparr> \<lparr>lat = 0, lng = 1\<rparr>)"
proof -
  let ?o = "\<lparr>lat = 0, lng = 0\<rparr>" and ?e = "\<lparr>lat = 0, lng = 1\<rparr>"
  note far = earthDistance_one_degree
  have near: "\<not> earthDistance ?o ?o > 100" by (simp add: earthDistance_same)
  have refl: "\<forall>p. earthDistance p p \<le> 100" by (simp add: earthDistance_same)
  have box: "latLngBounds ?o ?e = \<lparr>north = 0, south = 0, east = 1, west = 0\<rparr>"
    by (simp add: latLngBounds_def)
  note t1 = mouseup_selection [of ?e ?o _ earthDistance "[ex_box]"]
  note t2 = mouseup_selection [of ?o ?o _ earthDistance "[ex_box]"]
  from t1 far have r1: "mouseup earthDistance True \<lparr>startPoint = Some ?o, currentPoint = Some ?e\<rparr>
      [ex_box] = (\<lparr>startPoint = None, currentPoint = None\<rparr>, [ex_box] @ [latLngBounds ?o ?e])"
    by blast
  from t2 near have r2: "mouseup earthDistance True \<lparr>startPoint = Some ?o, currentPoint = Some ?o\<rparr>
      [ex_box] = (\<lparr>startPoint = None, currentPoint = None\<rparr>, [ex_box])"
    by blast
  from t1 far refl have "north (latLngBounds ?o ?e) > south (latLngBounds ?o ?e)
      \<or> east (latLngBounds ?o ?e) > west (latLngBounds ?o ?e)"
    by blast
  then have r3: "west (latLngBounds ?o ?e) < east (latLngBounds ?o ?e)"
    by (simp add: latLngBounds_def)
  from refl have ex: "\<exists>p. earthDistance p p \<le> 100" by blast
  from r1 have r1': "mouseup earthDistance True \<lparr>startPoint = Some ?o, currentPoint = Some ?e\<rparr>
      [ex_box] = (\<lparr>startPoint = None, currentPoint = None\<rparr>,
         [ex_box, \<lparr>north = 0, south = 0, east = 1, west = 0\<rparr>])"
    by (simp add: box)
  from far r1' near r2 ex r3 show ?thesis by (intro conjI)
qed

text \<open>
  C5, as the claim states it, fails: a drag along the equator from longitude 0 to
  longitude 1 is about 111 km long, and the box it appends has \<open>north = south\<close>.
\<close>

theorem mouseup_degenerate_box_counterexample:
  "earthDistance \<lparr>lat = 0, lng = 0\<rparr> \<lparr>lat = 0, lng = 1\<rparr> > 100
   \<and> snd (mouseup earthDistance True
        \<lparr>startPoint = Some \<lparr>lat = 0, lng = 0\<rparr>, currentPoint = Some \<lparr>lat = 0, lng = 1\<rparr>\<rparr> [])
      = [\<lparr>north = 0, south = 0, east = 1, west = 0\<rparr>]
   \<and> \<not> (north (last (snd (mouseup earthDistance True
        \<lparr>startPoint = Some \<lparr>lat = 0, lng = 0\<rparr>, currentPoint = Some \<lparr>lat = 0, lng = 1\<rparr>\<rparr> [])))
        > south (last (snd (mouseup earthDistance True
        \<lparr>startPoint = Some \<lparr>lat = 0, lng = 0\<rparr>, currentPoint = Some \<lparr>lat = 0, lng = 1\<rparr>\<rparr> []))))"
proof -
  note far = earthDistance_one_degree
  then have sel: "snd (mouseup earthDistance True
        \<lparr>startPoint = Some \<lparr>lat = 0, lng = 0\<rparr>, currentPoint = Some \<lparr>lat = 0, lng = 1\<rparr>\<rparr> [])
      = [\<lparr>north = 0, south = 0, east = 1, west = 0\<rparr>]"
    by (simp add: mouseup_def Let_def handleDrawComplete_def latLngBounds_def)
  from far sel show ?thesis by simp
qed

section \<open>Resizing the itinerary pane\<close>

text \<open>
  C7. For a pointer event at \<open>x\<close> and a container with its left edge and width, the
  requested width is \<open>x - left\<close>. While resizing, a requested width with
  \<open>320 < x - left < 0.75 * width\<close> becomes the pane width and nothing else
  changes. A requested width outside that open band (the bounds included) leaves the
  whole state as it was, so the pane keeps its last width and no boundary value is
  applied. Whenever \<open>resize\<close> returns, only the pane width can have changed, and it
  has changed only while resizing and to a requested width inside the band.
  Widths are real numbers here, not floating-point numbers.
\<close>

theorem resize_band:
  "(\<forall>rect x. isResizing st \<and> container = Some rect \<and> clientX e = Inr x
        \<and> 320 < x - left rect \<and> x - left rect < 0.75 * width rect
      \<longrightarrow> resize st container e = Inr (st\<lparr>itineraryWidth := x - left rect\<rparr>))
   \<and> (\<forall>rect x. container = Some rect \<and> clientX e = Inr x
        \<and> \<not> (320 < x - left rect \<and> x - left rect < 0.75 * width rect)
      \<longrightarrow> resize st container e = Inr st)
   \<and> (\<forall>st'. resize st container e = Inr st'
      \<longrightarrow> st'\<lparr>itineraryWidth := itineraryWidth st\<rparr> = st
        \<and> (itineraryWidth st' \<noteq> itineraryWidth st
            \<longrightarrow> isResizing st
              \<and> (\<exists>rect x. container = Some rect \<and> clientX e = Inr x
                    \<and> itineraryWidth st' = x - left rect
                    \<and> 320 < x - left rect \<and> x - left rect < 0.75 * width rect)))"
proof -
  have applied: "resize st container e = Inr (st\<lparr>itineraryWidth := x - left rect\<rparr>)"
    if "isResizing st \<and> container = Some rect \<and> clientX e = Inr x
        \<and> 320 < x - left rect \<and> x - left rect < 0.75 * width rect" for rect x
    using that by (simp add: resize_def Let_def mult.commute)
  have ignored: "resize st container e = Inr st"
    if "container = Some rect \<and> clientX e = Inr x
        \<and> \<not> (320 < x - left rect \<and> x - left rect < 0.75 * width rect)" for rect x
    using that by (auto simp: resize_def Let_def mult.commute)
  have only: "st'\<lparr>itineraryWidth := itineraryWidth st\<rparr> = st
        \<and> (itineraryWidth st' \<noteq> itineraryWidth st
            \<longrightarrow> isResizing st
              \<and> (\<exists>rect x. container = Some rect \<and> clientX e = Inr x
                    \<and> itineraryWidth st' = x - left rect
                    \<and> 320 < x - left rect \<and> x - left rect < 0.75 * width rect))"
    if "resize st container e = Inr st'" for st'
    using that
    by (auto simp: resize_def Let_def mult.commute split: if_splits option.splits sum.splits)
  from applied ignored only show ?thesis by blast
qed

theorem resize_band_witness:
  "resize ((ex_state None [])\<lparr>isResizing := True\<rparr>) (Some \<lparr>left = 100, width = 1000\<rparr>)
       (MouseEvent 600)
     = Inr ((ex_state None [])\<lparr>isResizing := True, itineraryWidth := 500\<rparr>)
   \<and> resize ((ex_state None [])\<lparr>isResizing := True\<rparr>) (Some \<lparr>left = 100, width = 1000\<rparr>)
       (MouseEvent 900)
     = Inr ((ex_state None [])\<lparr>isResizing := True\<rparr>)
   \<and> resize ((ex_state None [])\<lparr>isResizing := True\<rparr>) (Some \<lparr>left = 100, width = 1000\<rparr>)
       (MouseEvent 420)
     = Inr ((ex_state None [])\<lparr>isResizing := True\<rparr>)
   \<and> resize ((ex_state None [])\<lparr>isResizing := True\<rparr>) (Some \<lparr>left = 100, width = 1000\<rparr>)
       (TouchEvent [850])
     = Inr ((ex_state None [])\<lparr>isResizing := True\<rparr>)"
proof -
  let ?st = "(ex_state None [])\<lparr>isResizing := True\<rparr>"
  let ?c = "Some \<lparr>left = 100, width = 1000\<rparr>"
  have inside: "isResizing ?st \<and> ?c = Some \<lparr>left = 100, width = 1000\<rparr>
      \<and> clientX (MouseEvent 600) = Inr 600
      \<and> 320 < 600 - left \<lparr>left = 100, width = 1000\<rparr>
      \<and> 600 - left \<lparr>left = 100, width = 1000\<rparr> < 0.75 * width \<lparr>left = 100, width = 1000\<rparr>"
    by (simp add: clientX_def)
  have above: "?c = Some \<lparr>left = 100, width = 1000\<rparr> \<and> clientX (MouseEvent 900) = Inr 900
      \<and> \<not> (320 < 900 - left \<lparr>left = 100, width = 1000\<rparr>
           \<and> 900 - left \<lparr>left = 100, width = 1000\<rparr> < 0.75 * width \<lparr>left = 100, width = 1000\<rparr>)"
    by (simp add: clientX_def)
  have lower: "?c = Some \<lparr>left = 100, width = 1000\<rparr> \<and> clientX (MouseEvent 420) = Inr 420
      \<and> \<not> (320 < 420 - left \<lparr>left = 100, width = 1000\<rparr>
           \<and> 420 - left \<lparr>left = 100, width = 1000\<rparr> < 0.75 * width \<lparr>left = 100, width = 1000\<rparr>)"
    by (simp add: clientX_def)
  have upper: "?c = Some \<lparr>left = 100, width = 1000\<rparr> \<and> clientX (TouchEvent [850]) = Inr 850
      \<and> \<not> (320 < 850 - left \<lparr>left = 100, width = 1000\<rparr>
           \<and> 850 - left \<lparr>left = 100, width = 1000\<rparr> < 0.75 * width \<lparr>left = 100, width = 1000\<rparr>)"
    by (simp add: clientX_def)
  note r1 = resize_band [of ?st ?c "MouseEvent 600", THEN conjunct1, rule_format, OF inside]
  note r2 = resize_band [of ?st ?c "MouseEvent 900", THEN conjunct2, THEN conjunct1,
      rule_format, OF above]
  note r3 = resize_band [of ?st ?c "MouseEvent 420", THEN conjunct2, THEN conjunct1,
      rule_format, OF lower]
  note r4 = resize_band [of ?st ?c "TouchEvent [850]", THEN conjunct2, THEN conjunct1,
      rule_format, OF upper]
  from r1 r2 r3 r4 show ?thesis by simp
qed

section \<open>Submitting the planning form\<close>

lemma trim_empty_iff: "trim s = [] \<longleftrightarrow> (\<forall>c \<in> set s. js_whitespace c)"
proof
  assume "trim s = []"
  then have "\<forall>c \<in> set (dropWhile js_whitespace s). js_whitespace c"
    by (simp add: trim_def dropWhile_eq_Nil_conv)
  then have "dropWhile js_whitespace s = []"
    by (metis hd_dropWhile list.set_sel(1))
  then show "\<forall>c \<in> set s. js_whitespace c"
    by (simp add: dropWhile_eq_Nil_conv)
next
  assume "\<forall>c \<in> set s. js_whitespace c"
  then show "trim s = []"
    by (auto simp: trim_def dest: set_dropWhileD)
qed

text \<open>
  C8. When the destination text is empty after \<open>trim\<close> (it holds white space only)
  and no region is selected, \<open>handleSubmit\<close> does not call \<open>onPlanTrip\<close>, so no
  planning request is made, and the form state is unchanged. When the destination
  holds another character, or a region is selected, it calls \<open>onPlanTrip\<close> with
  the request built from the form: the destination as typed, and the selected regions
  (\<open>null\<close> when there are none).
\<close>

theorem handleSubmit_gate:
  "(trim (in_destination f) = [] \<and> areas = [] \<longrightarrow> handleSubmit f areas = (f, None))
   \<and> (trim (in_destination f) \<noteq> [] \<or> areas \<noteq> [] \<longrightarrow>
        (\<exists>req. handleSubmit f areas = (f, Some req)
           \<and> req_destination req = in_destination f
           \<and> req_selectedAreas req = (if areas = [] then None else Some areas)
           \<and> req_days req = in_days f
           \<and> req_currency req = in_currency f
           \<and> req_preSelectedStay req = in_preSelectedStay f))
   \<and> (trim (in_destination f) = [] \<longleftrightarrow> (\<forall>c \<in> set (in_destination f). js_whitespace c))"
proof -
  have blocked: "handleSubmit f areas = (f, None)"
    if "trim (in_destination f) = [] \<and> areas = []"
    using that by (simp add: handleSubmit_def)
  have proceeds: "\<exists>req. handleSubmit f areas = (f, Some req)
           \<and> req_destination req = in_destination f
           \<and> req_selectedAreas req = (if areas = [] then None else Some areas)
           \<and> req_days req = in_days f
           \<and> req_currency req = in_currency f
           \<and> req_preSelectedStay req = in_preSelectedStay f"
    if "trim (in_destination f) \<noteq> [] \<or> areas \<noteq> []"
    using that by (auto simp: handleSubmit_def)
  from blocked proceeds trim_empty_iff [of "in_destination f"] show ?thesis by blast
qed

theorem handleSubmit_gate_witness:
  "trim ''  '' = []
   \<and> handleSubmit (ex_form ''  '') [] = (ex_form ''  '', None)
   \<and> trim ''Paris'' \<noteq> []
   \<and> (\<exists>req. handleSubmit (ex_form ''Paris'') [] = (ex_form ''Paris'', Some req)
         \<and> req_destination req = ''Paris'' \<and> req_selectedAreas req = None)
   \<and> (\<exists>req. handleSubmit (ex_form []) [ex_box] = (ex_form [], Some req)
         \<and> req_destination req = [] \<and> req_selectedAreas req = Some [ex_box])"
proof -
  note blank = handleSubmit_gate [of "ex_form ''  ''" "[]"]
  note named = handleSubmit_gate [of "ex_form ''Paris''" "[]"]
  note region = handleSubmit_gate [of "ex_form []" "[ex_box]"]
  have t1: "trim ''  '' = []"
    using blank by (simp add: ex_form_def js_whitespace_def)
  have t2: "trim ''Paris'' \<noteq> []"
    using named by (simp add: ex_form_def js_whitespace_def)
  have hb: "trim (in_destination (ex_form ''  '')) = [] \<and> ([]::TripBounds list) = []"
    using t1 by (simp add: ex_form_def)
  have hn: "trim (in_destination (ex_form ''Paris'')) \<noteq> [] \<or> ([]::TripBounds list) \<noteq> []"
    using t2 by (simp add: ex_form_def)
  have hr: "trim (in_destination (ex_form [])) \<noteq> [] \<or> [ex_box] \<noteq> []"
    by simp
  note b = blank [THEN conjunct1, rule_format, OF hb]
  from named [THEN conjunct2, THEN conjunct1, rule_format, OF hn] obtain req where
    "handleSubmit (ex_form ''Paris'') [] = (ex_form ''Paris'', Some req)"
    "req_destination req = in_destination (ex_form ''Paris'')"
    "req_selectedAreas req = (if ([]::TripBounds list) = [] then None else Some [])"
    by blast
  then have n: "\<exists>req. handleSubmit (ex_form ''Paris'') [] = (ex_form ''Paris'', Some req)
         \<and> req_destination req = ''Paris'' \<and> req_selectedAreas req = None"
    by (auto simp: ex_form_def)
  from region [THEN conjunct2, THEN conjunct1, rule_format, OF hr] obtain req where
    "handleSubmit (ex_form []) [ex_box] = (ex_form [], Some req)"
    "req_destination req = in_destination (ex_form [])"
    "req_selectedAreas req = (if [ex_box] = [] then None else Some [ex_box])"
    by blast
  then have r: "\<exists>req. handleSubmit (ex_form []) [ex_box] = (ex_form [], Some req)
         \<and> req_destination req = [] \<and> req_selectedAreas req = Some [ex_box]"
    by (auto simp: ex_form_def)
  from t1 b t2 n r show ?thesis by blast
qed

section \<open>Generating a plan\<close>

text \<open>
  C9. Whenever \<open>generateTripPlan\<close> returns a plan, its currency is the currency of
  the request and its id is the value drawn from \<open>crypto.randomUUID()\<close> for this
  call, whatever the parsed output held in these fields. With a pre-selected stay in
  the request the stay location of the plan is that activity; without one it is the
  stay location of the parsed output. The function returns a plan whenever the API
  key is set and the reply parses to an object with an itinerary.
\<close>

theorem generateTripPlan_overrides:
  "(\<forall>p. generateTripPlan request uuid apiKey response = Inr p \<longrightarrow>
        currency p = req_currency request
      \<and> id_plan p = uuid
      \<and> (\<forall>s. req_preSelectedStay request = Some s \<longrightarrow> stayLocation p = Some s)
      \<and> (req_preSelectedStay request = None \<longrightarrow>
           (\<exists>r data. response = Resolved r \<and> response_text r = JsonValue data
              \<and> stayLocation p = raw_stayLocation data)))
   \<and> (\<forall>r data days. (\<exists>k. getApiKey apiKey = Inr k) \<and> response = Resolved r
        \<and> response_text r = JsonValue data \<and> raw_itinerary data = Some days \<longrightarrow>
        (\<exists>p. generateTripPlan request uuid apiKey response = Inr p))"
proof -
  have overrides: "currency p = req_currency request
      \<and> id_plan p = uuid
      \<and> (\<forall>s. req_preSelectedStay request = Some s \<longrightarrow> stayLocation p = Some s)
      \<and> (req_preSelectedStay request = None \<longrightarrow>
           (\<exists>r data. response = Resolved r \<and> response_text r = JsonValue data
              \<and> stayLocation p = raw_stayLocation data))"
    if "generateTripPlan request uuid apiKey response = Inr p" for p
    using that
    by (auto simp: generateTripPlan_def
        split: sum.splits reply.splits parsed.splits option.splits)
  have succeeds: "\<exists>p. generateTripPlan request uuid apiKey response = Inr p"
    if "(\<exists>k. getApiKey apiKey = Inr k) \<and> response = Resolved r
        \<and> response_text r = JsonValue data \<and> raw_itinerary data = Some days" for r data days
    using that by (auto simp: generateTripPlan_def)
  from overrides succeeds show ?thesis by blast
qed


theorem generateTripPlan_overrides_witness:
  "(\<exists>k. getApiKey (Some ''k'') = Inr k)
   \<and> raw_id ex_raw = Some ''old'' \<and> raw_currency ex_raw = Some ''EUR''
   \<and> raw_stayLocation ex_raw = Some (ex_act ''theirs'')
   \<and> (\<exists>p. generateTripPlan ex_request ''uuid-1'' (Some ''k'')
          (Resolved \<lparr>response_text = JsonValue ex_raw, groundingChunks = []\<rparr>) = Inr p
        \<and> currency p = INR \<and> id_plan p = ''uuid-1''
        \<and> stayLocation p = Some (ex_act ''mine''))"
proof -
  let ?r = "\<lparr>response_text = JsonValue ex_raw, groundingChunks = []\<rparr>"
  note t = generateTripPlan_overrides [of ex_request "''uuid-1''" "Some ''k''" "Resolved ?r"]
  have key: "\<exists>k. getApiKey (Some ''k'') = Inr k" by (simp add: getApiKey_def)
  have raw: "raw_id ex_raw = Some ''old''" "raw_currency ex_raw = Some ''EUR''"
    "raw_stayLocation ex_raw = Some (ex_act ''theirs'')"
    "raw_itinerary ex_raw = Some [ex_day 1 [ex_act ''a0'']]"
    by (simp_all add: ex_raw_def)
  have pre: "(\<exists>k. getApiKey (Some ''k'') = Inr k) \<and> Resolved ?r = Resolved ?r
      \<and> response_text ?r = JsonValue ex_raw \<and> raw_itinerary ex_raw = Some [ex_day 1 [ex_act ''a0'']]"
    using key raw(4) by simp
  from t [THEN conjunct2, rule_format, OF pre] obtain p where
    run: "generateTripPlan ex_request ''uuid-1'' (Some ''k'') (Resolved ?r) = Inr p"
    by blast
  from t [THEN conjunct1, rule_format, OF run]
  have "currency p = req_currency ex_request" "id_plan p = ''uuid-1''"
    "\<forall>s. req_preSelectedStay ex_request = Some s \<longrightarrow> stayLocation p = Some s"
    by blast+
  then have res: "currency p = INR" "id_plan p = ''uuid-1''" "stayLocation p = Some (ex_act ''mine'')"
    by (simp_all add: ex_request_def)
  from key raw(1-3) run res show ?thesis by blast
qed


end
